theory Spec2Isabelle
  imports Main
begin

text \<open>
  A model of the core of the Git Flow Next extension (\<open>src/extension.ts\<close>, in its version
  with the tree view): the classification of the current branch, the resolvers that
  turn settings into command arguments, the execution of git-flow commands with the
  extraction of the error message, the branch lists, the refresh of the context keys,
  and the save handler that schedules it.
\<close>

section \<open>JavaScript strings\<close>

text \<open>
  A JavaScript string is a sequence of UTF-16 code units. A code unit is modelled as a
  natural number and a string as the list of its code units; \<open>js\<close> reads an ASCII literal
  of the source as such a list.
\<close>

type_synonym jsstring = "nat list"

definition js :: "string \<Rightarrow> jsstring" where
  "js s = map of_char s"

definition isLineTerminator :: "nat \<Rightarrow> bool" where
  \<comment> \<open>ECMAScript LineTerminator: LF, CR, LS (U+2028), PS (U+2029).\<close>
  "isLineTerminator c = (c = 10 \<or> c = 13 \<or> c = 8232 \<or> c = 8233)"

definition isWhiteSpace :: "nat \<Rightarrow> bool" where
  \<comment> \<open>What \<open>String.prototype.trim\<close> strips: ECMAScript WhiteSpace (TAB, VT, FF, SP, NBSP,
      ZWNBSP and the Unicode space separators) and LineTerminator.\<close>
  "isWhiteSpace c =
     (c = 9 \<or> c = 11 \<or> c = 12 \<or> c = 32 \<or> c = 160 \<or> c = 5760 \<or> (8192 \<le> c \<and> c \<le> 8202)
      \<or> c = 8239 \<or> c = 8287 \<or> c = 12288 \<or> c = 65279 \<or> isLineTerminator c)"

definition trim :: "jsstring \<Rightarrow> jsstring" where
  "trim s = rev (dropWhile isWhiteSpace (rev (dropWhile isWhiteSpace s)))"

definition startsWith :: "jsstring \<Rightarrow> jsstring \<Rightarrow> bool" where
  "startsWith s p = (take (length p) s = p)"

definition endsWith :: "jsstring \<Rightarrow> jsstring \<Rightarrow> bool" where
  "endsWith s p = (length p \<le> length s \<and> drop (length s - length p) s = p)"

fun includesStr :: "jsstring \<Rightarrow> jsstring \<Rightarrow> bool" where
  "includesStr [] p = (p = [])"
| "includesStr (c # cs) p = (startsWith (c # cs) p \<or> includesStr cs p)"

fun replaceFirst :: "jsstring \<Rightarrow> jsstring \<Rightarrow> jsstring \<Rightarrow> jsstring" where
  \<comment> \<open>\<open>s.replace(p, r)\<close> with a string pattern: only the first occurrence is replaced.\<close>
  "replaceFirst [] p r = (if p = [] then r else [])"
| "replaceFirst (c # cs) p r =
     (if startsWith (c # cs) p then r @ drop (length p) (c # cs) else c # replaceFirst cs p r)"

fun splitLines :: "jsstring \<Rightarrow> jsstring list" where
  \<comment> \<open>\<open>s.split('\n')\<close>: the pieces between line feeds; the empty string gives one empty piece.\<close>
  "splitLines [] = [[]]"
| "splitLines (c # cs) =
     (if c = 10 then [] # splitLines cs
      else (case splitLines cs of [] \<Rightarrow> [[c]] | l # ls \<Rightarrow> (c # l) # ls))"

fun joinWith :: "jsstring \<Rightarrow> jsstring list \<Rightarrow> jsstring" where
  \<comment> \<open>\<open>xs.join(sep)\<close>\<close>
  "joinWith sep [] = []"
| "joinWith sep [x] = x"
| "joinWith sep (x # y # ys) = x @ sep @ joinWith sep (y # ys)"

section \<open>Errors and the host environment\<close>

text \<open>
  Every exception of the source is a JavaScript \<open>Error\<close> carrying a message. The host
  (the editor and the shell) is a snapshot:
  \<^item> \<open>workspaceFolders\<close>: the paths of \<open>vscode.workspace.workspaceFolders\<close>, empty when
    the property is undefined or empty;
  \<^item> \<open>execAsync\<close>: the outcome of a command line run in a working directory (\<open>None\<close>: the
    default one), its standard output or the rejection;
  \<^item> \<open>declinedInstallations\<close>: the repositories noted in the workspace state;
  \<^item> \<open>isMac\<close>: whether \<open>process.platform\<close> is \<open>darwin\<close>;
  \<^item> \<open>installChoice\<close>: the button picked in the installation dialogue, if any.
\<close>

datatype error = Error (message: jsstring)

record env =
  workspaceFolders :: "jsstring list"
  execAsync :: "jsstring \<Rightarrow> jsstring option \<Rightarrow> error + jsstring"
  declinedInstallations :: "jsstring list"
  isMac :: bool
  installChoice :: "jsstring option"

section \<open>Branch classification\<close>

datatype BranchType = feature | release | hotfix | support | bugfix | main | develop | unknown

record BranchInfo =
  type :: BranchType
  name :: jsstring
  fullName :: jsstring

definition classify :: "jsstring \<Rightarrow> BranchInfo" where
  \<comment> \<open>The branch of \<open>getCurrentBranch\<close> that determines the type from the naming
      conventions, applied to \<open>branchName\<close>.\<close>
  "classify branchName =
     (if startsWith branchName (js ''feature/'') then
        \<lparr>type = feature, name = replaceFirst branchName (js ''feature/'') [], fullName = branchName\<rparr>
      else if startsWith branchName (js ''release/'') then
        \<lparr>type = release, name = replaceFirst branchName (js ''release/'') [], fullName = branchName\<rparr>
      else if startsWith branchName (js ''hotfix/'') then
        \<lparr>type = hotfix, name = replaceFirst branchName (js ''hotfix/'') [], fullName = branchName\<rparr>
      else if startsWith branchName (js ''support/'') then
        \<lparr>type = support, name = replaceFirst branchName (js ''support/'') [], fullName = branchName\<rparr>
      else if startsWith branchName (js ''bugfix/'') then
        \<lparr>type = bugfix, name = replaceFirst branchName (js ''bugfix/'') [], fullName = branchName\<rparr>
      else if branchName = js ''main'' \<or> branchName = js ''master'' then
        \<lparr>type = main, name = branchName, fullName = branchName\<rparr>
      else if branchName = js ''develop'' then
        \<lparr>type = develop, name = branchName, fullName = branchName\<rparr>
      else
        \<lparr>type = unknown, name = branchName, fullName = branchName\<rparr>)"

definition getCurrentBranch :: "env \<Rightarrow> error + BranchInfo" where
  "getCurrentBranch e =
     (if workspaceFolders e = [] then
        Inl (Error (js ''No workspace folder open. Please open a git repository folder.''))
      else
        (let workspacePath = hd (workspaceFolders e) in
         case execAsync e (js ''git branch --show-current'') (Some workspacePath) of
           Inr stdout \<Rightarrow> Inr (classify (trim stdout))
         | Inl err \<Rightarrow> Inl (Error (js ''Not in a git repository''))))"

definition topicPrefix :: "BranchType \<Rightarrow> jsstring option" where
  \<comment> \<open>The prefix literal that \<open>classify\<close> tests for each topic type; base types have none.\<close>
  "topicPrefix k =
     (case k of
        feature \<Rightarrow> Some (js ''feature/'')
      | release \<Rightarrow> Some (js ''release/'')
      | hotfix \<Rightarrow> Some (js ''hotfix/'')
      | support \<Rightarrow> Some (js ''support/'')
      | bugfix \<Rightarrow> Some (js ''bugfix/'')
      | _ \<Rightarrow> None)"

section \<open>Configuration and the argument resolvers\<close>

text \<open>
  \<open>vscode.workspace.getConfiguration('gitFlowNext')\<close> is a store of settings read with
  \<open>config.get<T>(key, default)\<close>: the stored value, or the default when the key has none.
  The settings have the types at which the source reads them (strings and booleans).
\<close>

record configuration =
  strings :: "jsstring \<rightharpoonup> jsstring"
  booleans :: "jsstring \<rightharpoonup> bool"

definition getString :: "configuration \<Rightarrow> jsstring \<Rightarrow> jsstring \<Rightarrow> jsstring" where
  "getString config key dflt = (case strings config key of None \<Rightarrow> dflt | Some v \<Rightarrow> v)"

definition getBoolean :: "configuration \<Rightarrow> jsstring \<Rightarrow> bool \<Rightarrow> bool" where
  "getBoolean config key dflt = (case booleans config key of None \<Rightarrow> dflt | Some v \<Rightarrow> v)"






definition getTagOptions ::
  "configuration \<Rightarrow> (jsstring \<Rightarrow> jsstring option) \<Rightarrow> jsstring \<Rightarrow> jsstring option \<Rightarrow> jsstring list"
where
  \<comment> \<open>\<open>showInputBox\<close> is the user's answer to the tag-message prompt, given the prefilled
      value: \<open>None\<close> when the prompt is dismissed. \<open>branchName\<close> is the optional argument.\<close>
  "getTagOptions config showInputBox branchType branchName =
     (let createTag = getBoolean config (branchType @ js ''.createTag'') False;
          signTags = getBoolean config (js ''signTags'') False;
          gpgKey = getString config (js ''gpgSigningKey'') [];
          tagPrefix = getString config (branchType @ js ''.tagPrefix'') [];
          promptForMessage = getBoolean config (js ''promptForTagMessage'') False
      in if createTag then
           [js ''--tag'']
           @ (if tagPrefix \<noteq> [] \<and> trim tagPrefix \<noteq> [] then [js ''--tagprefix'', trim tagPrefix]
              else [])
           @ (case branchName of
                Some bn \<Rightarrow>
                  (if promptForMessage \<and> bn \<noteq> [] then
                     (case showInputBox (js ''Release '' @ bn) of
                        Some tagMessage \<Rightarrow>
                          (if tagMessage \<noteq> [] \<and> trim tagMessage \<noteq> [] then
                             [js ''--message'', trim tagMessage]
                           else [])
                      | None \<Rightarrow> [])
                   else [])
              | None \<Rightarrow> [])
           @ (if signTags then
                [js ''--sign'']
                @ (if gpgKey \<noteq> [] \<and> trim gpgKey \<noteq> [] then [js ''--signingkey'', trim gpgKey]
                   else [])
              else [])
         else [js ''--notag''])"

definition getBranchRetentionOptions :: "configuration \<Rightarrow> jsstring \<Rightarrow> jsstring list" where
  "getBranchRetentionOptions config branchType =
     (let keepBranch = getString config (branchType @ js ''.keepBranch'') (js ''delete'');
          forceDelete = getBoolean config (js ''forceDelete'') False
      in (if keepBranch \<noteq> js ''use-git-config'' then
            (if keepBranch = js ''keep'' then [js ''--keep'']
             else if keepBranch = js ''keep-local'' then [js ''--keeplocal'']
             else if keepBranch = js ''keep-remote'' then [js ''--keepremote'']
             else if keepBranch = js ''delete'' then []
             else [])
          else [])
         @ (if forceDelete then [js ''--force-delete''] else []))"


definition emptyConfiguration :: configuration where
  "emptyConfiguration = \<lparr>strings = Map.empty, booleans = Map.empty\<rparr>"

definition keepFlags :: "jsstring list" where
  \<comment> \<open>the three retention flags\<close>
  "keepFlags = [js ''--keep'', js ''--keeplocal'', js ''--keepremote'']"

definition tagFlags :: "jsstring list" where
  \<comment> \<open>the two tag flags\<close>
  "tagFlags = [js ''--tag'', js ''--notag'']"

definition valueOptions :: "jsstring list" where
  \<comment> \<open>the tag options that take the next element as their value\<close>
  "valueOptions = [js ''--tagprefix'', js ''--message'', js ''--signingkey'']"

fun flagsOf :: "jsstring list \<Rightarrow> jsstring list" where
  \<comment> \<open>the flags of an argument list: its elements without the values that follow
      \<open>--tagprefix\<close>, \<open>--message\<close> and \<open>--signingkey\<close>\<close>
  "flagsOf [] = []"
| "flagsOf [opt] = [opt]"
| "flagsOf (opt # v # rest) =
     (if opt \<in> set valueOptions then opt # flagsOf rest else opt # flagsOf (v # rest))"

section \<open>Regular expressions of the error extraction\<close>

text \<open>
  The two regular expressions of \<open>executeGitFlowCommand\<close> are written as syntax trees and
  run by a backtracking matcher in continuation-passing style, which tries the
  alternatives in the order of the JavaScript semantics: a lazy \<open>+?\<close> first tries to
  stop, a greedy \<open>+\<close> first tries to go on, \<open>a|b\<close> tries \<open>a\<close> first. The continuation
  receives the rest of the input and the text of capture group 1.
\<close>

datatype charclass = Lit nat | AnyChar | NotLit nat

fun classMatches :: "charclass \<Rightarrow> nat \<Rightarrow> bool" where
  "classMatches (Lit c) x = (x = c)"
| "classMatches AnyChar x = (\<not> isLineTerminator x)"
| "classMatches (NotLit c) x = (x \<noteq> c)"

datatype regex =
    One charclass
  | PlusLazy charclass
  | PlusGreedy charclass
  | Seq regex regex
  | Alt regex regex
  | Empty
  | EndOfInput
  | Group regex

fun lazyPlus :: "charclass \<Rightarrow> (jsstring \<Rightarrow> 'r option) \<Rightarrow> jsstring \<Rightarrow> 'r option" where
  "lazyPlus c k [] = None"
| "lazyPlus c k (x # xs) =
     (if classMatches c x then
        (case k xs of Some r \<Rightarrow> Some r | None \<Rightarrow> lazyPlus c k xs)
      else None)"

fun greedyPlus :: "charclass \<Rightarrow> (jsstring \<Rightarrow> 'r option) \<Rightarrow> jsstring \<Rightarrow> 'r option" where
  "greedyPlus c k [] = None"
| "greedyPlus c k (x # xs) =
     (if classMatches c x then
        (case greedyPlus c k xs of Some r \<Rightarrow> Some r | None \<Rightarrow> k xs)
      else None)"

fun rmatch ::
  "regex \<Rightarrow> (jsstring \<Rightarrow> jsstring option \<Rightarrow> 'r option) \<Rightarrow> jsstring \<Rightarrow> jsstring option \<Rightarrow> 'r option"
where
  "rmatch (One c) k s g =
     (case s of [] \<Rightarrow> None | x # xs \<Rightarrow> if classMatches c x then k xs g else None)"
| "rmatch (PlusLazy c) k s g = lazyPlus c (\<lambda>s'. k s' g) s"
| "rmatch (PlusGreedy c) k s g = greedyPlus c (\<lambda>s'. k s' g) s"
| "rmatch (Seq a b) k s g = rmatch a (\<lambda>s' g'. rmatch b k s' g') s g"
| "rmatch (Alt a b) k s g =
     (case rmatch a k s g of Some r \<Rightarrow> Some r | None \<Rightarrow> rmatch b k s g)"
| "rmatch Empty k s g = k s g"
| "rmatch EndOfInput k s g = (if s = [] then k s g else None)"
| "rmatch (Group a) k s g =
     rmatch a (\<lambda>s' g'. k s' (Some (take (length s - length s') s))) s g"

fun chars :: "jsstring \<Rightarrow> regex" where
  \<comment> \<open>literal text: one character after the other\<close>
  "chars [] = Empty"
| "chars (c # cs) = Seq (One (Lit c)) (chars cs)"

definition matchAt :: "regex \<Rightarrow> jsstring \<Rightarrow> (jsstring \<times> jsstring option) option" where
  \<comment> \<open>a match that starts at the beginning of \<open>s\<close>: the input left after it and group 1\<close>
  "matchAt r s = rmatch r (\<lambda>s' g. Some (s', g)) s None"

fun search :: "regex \<Rightarrow> jsstring \<Rightarrow> (jsstring \<times> jsstring option) option" where
  \<comment> \<open>the leftmost match: every start index in turn, the end of the input included\<close>
  "search r [] = matchAt r []"
| "search r (x # xs) =
     (case matchAt r (x # xs) of Some m \<Rightarrow> Some m | None \<Rightarrow> search r xs)"

definition errorRe :: regex where
  \<comment> \<open>\<^verbatim>\<open>/Error: (.+?)(?:\n|$)/\<close>\<close>
  "errorRe =
     Seq (chars (js ''Error: ''))
       (Seq (Group (PlusLazy AnyChar)) (Alt (One (Lit 10)) EndOfInput))"

definition commandFailedRe :: regex where
  \<comment> \<open>\<^verbatim>\<open>/^Command failed: [^\n]+\n?/\<close> without its leading \<^verbatim>\<open>^\<close>, which is rendered by
      matching at index 0 only\<close>
  "commandFailedRe =
     Seq (chars (js ''Command failed: ''))
       (Seq (PlusGreedy (NotLit 10)) (Alt (One (Lit 10)) Empty))"

definition extractErrorMessage :: "jsstring \<Rightarrow> jsstring" where
  \<comment> \<open>The catch block of \<open>executeGitFlowCommand\<close>, from the raw text to the final value of
      \<open>errorMessage\<close>. Group 1 takes part in every match of \<open>errorRe\<close>, so the branch for
      its absence is never taken.\<close>
  "extractErrorMessage errorMessage =
     (case search errorRe errorMessage of
        Some (rest, g) \<Rightarrow> (case g of Some m \<Rightarrow> m | None \<Rightarrow> [])
      | None \<Rightarrow>
          trim (case matchAt commandFailedRe errorMessage of
                  Some (rest, g) \<Rightarrow> rest
                | None \<Rightarrow> errorMessage))"

definition rawErrorText :: "error \<Rightarrow> jsstring" where
  \<comment> \<open>\<open>error.message || error.toString()\<close>: an \<open>Error\<close> with an empty message prints as its
      name\<close>
  "rawErrorText err = (if message err \<noteq> [] then message err else js ''Error'')"

definition shownErrorMessage :: "bool \<Rightarrow> error \<Rightarrow> jsstring option" where
  \<comment> \<open>what the catch block passes to \<open>showErrorMessage\<close>, if anything\<close>
  "shownErrorMessage showError err =
     (let errorMessage = extractErrorMessage (rawErrorText err)
      in if showError \<and> errorMessage \<noteq> [] then Some (js ''Git Flow: '' @ errorMessage)
         else None)"

section \<open>The extracted error message in words\<close>

text \<open>
  The same extraction without regular expressions: an error marker is the text
  \<open>Error: \<close> followed by a message, a non-empty run of characters other than line
  terminators that ends at a line feed or at the end of the text.
\<close>

definition markerAt :: "jsstring \<Rightarrow> jsstring option" where
  \<comment> \<open>the message of the marker that starts at the beginning of \<open>s\<close>, if there is one\<close>
  "markerAt s =
     (if startsWith s (js ''Error: '') then
        (let rest = drop (length (js ''Error: '')) s;
             msg = takeWhile (\<lambda>c. \<not> isLineTerminator c) rest;
             after = dropWhile (\<lambda>c. \<not> isLineTerminator c) rest
         in if msg \<noteq> [] \<and> (after = [] \<or> hd after = 10) then Some msg else None)
      else None)"

fun firstMarker :: "jsstring \<Rightarrow> jsstring option" where
  \<comment> \<open>the message of the leftmost marker\<close>
  "firstMarker [] = None"
| "firstMarker (c # cs) =
     (case markerAt (c # cs) of Some msg \<Rightarrow> Some msg | None \<Rightarrow> firstMarker cs)"

definition stripCommandFailed :: "jsstring \<Rightarrow> jsstring" where
  \<comment> \<open>without the leading line \<open>Command failed: \<dots>\<close> (the prefix, at least one
      character other than a line feed, and the line feed that ends the line, if any)\<close>
  "stripCommandFailed s =
     (let rest = drop (length (js ''Command failed: '')) s
      in if startsWith s (js ''Command failed: '') \<and> rest \<noteq> [] \<and> hd rest \<noteq> 10 then
           drop 1 (dropWhile (\<lambda>c. c \<noteq> 10) rest)
         else s)"

section \<open>Running git-flow commands and listing branches\<close>

definition isGitFlowNextInstalled :: "env \<Rightarrow> bool" where
  "isGitFlowNextInstalled e =
     (case execAsync e (js ''git flow version'') None of Inr out \<Rightarrow> True | Inl err \<Rightarrow> False)"

definition isHomebrewInstalled :: "env \<Rightarrow> bool" where
  "isHomebrewInstalled e =
     (case execAsync e (js ''brew --version'') None of Inr out \<Rightarrow> True | Inl err \<Rightarrow> False)"

definition hasDeclinedInstallation :: "env \<Rightarrow> bool" where
  "hasDeclinedInstallation e =
     (if workspaceFolders e = [] \<or> hd (workspaceFolders e) = [] then False
      else hd (workspaceFolders e) \<in> set (declinedInstallations e))"

definition isGitFlowInitialized :: "env \<Rightarrow> bool" where
  "isGitFlowInitialized e =
     (if workspaceFolders e = [] then False
      else
        (let workspacePath = hd (workspaceFolders e) in
         case execAsync e
                (js ''git config --get gitflow.branch.master || git config --get gitflow.branch.main'')
                (Some workspacePath) of
           Inr stdout \<Rightarrow> length (trim stdout) > 0
         | Inl err \<Rightarrow> False))"

definition notInstalledError :: "env \<Rightarrow> error" where
  \<comment> \<open>The installation dialogue of \<open>executeGitFlowCommand\<close>: every path through it ends
      in a throw. \<open>installChoice\<close> is the button the user picks (\<open>None\<close>: dismissed). The
      note that \<open>markInstallationDeclined\<close> leaves in the workspace state is not part of
      the result.\<close>
  "notInstalledError e =
     (if hasDeclinedInstallation e then
        Error (js ''git-flow-next is not installed and installation was declined for this repository'')
      else if isMac e \<and> installChoice e = Some (js ''Install via Homebrew'')
              \<and> isHomebrewInstalled e then
        Error (js ''git-flow-next installation in progress'')
      else Error (js ''git-flow-next is not installed''))"

definition executeGitFlowCommand :: "env \<Rightarrow> jsstring \<Rightarrow> jsstring list \<Rightarrow> error + jsstring" where
  \<comment> \<open>The value returned or the exception thrown. The options \<open>showOutput\<close> and
      \<open>showError\<close> only select the notifications (see \<open>shownErrorMessage\<close>); a failure of
      the command is thrown again unchanged.\<close>
  "executeGitFlowCommand e command args =
     (if \<not> isGitFlowNextInstalled e then Inl (notInstalledError e)
      else if workspaceFolders e = [] then
        Inl (Error (js ''No workspace folder open. Please open a git repository folder.''))
      else
        (let workspacePath = hd (workspaceFolders e);
             fullCommand = js ''git flow '' @ command @ js '' '' @ joinWith (js '' '') args
         in case execAsync e fullCommand (Some workspacePath) of
              Inr stdout \<Rightarrow> Inr stdout
            | Inl err \<Rightarrow> Inl err))"

definition branchLines :: "jsstring \<Rightarrow> jsstring list" where
  \<comment> \<open>\<open>output.split('\n').filter(line => line.trim())
        .filter(line => !line.trim().endsWith(':')).map(line => line.trim())\<close>\<close>
  "branchLines output =
     map trim
       (filter (\<lambda>line. \<not> endsWith (trim line) (js '':''))
          (filter (\<lambda>line. trim line \<noteq> []) (splitLines output)))"

definition getBranchList :: "env \<Rightarrow> jsstring \<Rightarrow> jsstring list" where
  \<comment> \<open>the helper of \<open>activate\<close>: try the list command, catch everything\<close>
  "getBranchList e ty =
     (case executeGitFlowCommand e (ty @ js '' list'') [] of
        Inr output \<Rightarrow> branchLines output
      | Inl err \<Rightarrow> [])"

definition treeGetBranchList :: "env \<Rightarrow> jsstring \<Rightarrow> jsstring list" where
  \<comment> \<open>\<open>GitFlowTreeDataProvider.getBranchList\<close>\<close>
  "treeGetBranchList e ty =
     (if workspaceFolders e = [] then []
      else
        (let workspacePath = hd (workspaceFolders e) in
         case execAsync e (js ''git flow '' @ ty @ js '' list'') (Some workspacePath) of
           Inr stdout \<Rightarrow> branchLines stdout
         | Inl err \<Rightarrow> []))"

section \<open>The state refresh\<close>

text \<open>
  The published state is the editor's context: a store from context keys to values,
  written by the host command \<open>setContext\<close>, which always succeeds.
\<close>

record ContextKeys =
  isOnTopicBranch :: jsstring
  isOnFeatureBranch :: jsstring
  isOnReleaseBranch :: jsstring
  isOnHotfixBranch :: jsstring
  isOnSupportBranch :: jsstring
  isOnBugfixBranch :: jsstring
  featuresExist :: jsstring
  releasesExist :: jsstring
  hotfixesExist :: jsstring
  supportsExist :: jsstring
  bugfixesExist :: jsstring
  isInstalled :: jsstring
  isInitialized :: jsstring

definition contextKeys :: ContextKeys where
  "contextKeys =
     \<lparr>isOnTopicBranch = js ''gitFlowNext.isOnTopicBranch'',
      isOnFeatureBranch = js ''gitFlowNext.isOnFeatureBranch'',
      isOnReleaseBranch = js ''gitFlowNext.isOnReleaseBranch'',
      isOnHotfixBranch = js ''gitFlowNext.isOnHotfixBranch'',
      isOnSupportBranch = js ''gitFlowNext.isOnSupportBranch'',
      isOnBugfixBranch = js ''gitFlowNext.isOnBugfixBranch'',
      featuresExist = js ''gitFlowNext.featuresExist'',
      releasesExist = js ''gitFlowNext.releasesExist'',
      hotfixesExist = js ''gitFlowNext.hotfixesExist'',
      supportsExist = js ''gitFlowNext.supportsExist'',
      bugfixesExist = js ''gitFlowNext.bugfixesExist'',
      isInstalled = js ''git-flow-next.isInstalled'',
      isInitialized = js ''git-flow-next.isInitialized''\<rparr>"

definition contextKeyValues :: "jsstring list" where
  \<comment> \<open>\<open>Object.values(contextKeys)\<close>, in the order of the declaration\<close>
  "contextKeyValues =
     [isOnTopicBranch contextKeys, isOnFeatureBranch contextKeys, isOnReleaseBranch contextKeys,
      isOnHotfixBranch contextKeys, isOnSupportBranch contextKeys, isOnBugfixBranch contextKeys,
      featuresExist contextKeys, releasesExist contextKeys, hotfixesExist contextKeys,
      supportsExist contextKeys, bugfixesExist contextKeys, isInstalled contextKeys,
      isInitialized contextKeys]"

type_synonym contextStore = "jsstring \<rightharpoonup> bool"

definition setContext :: "jsstring \<Rightarrow> bool \<Rightarrow> contextStore \<Rightarrow> contextStore" where
  "setContext key v ctx = ctx(key \<mapsto> v)"

definition resetContexts :: "contextStore \<Rightarrow> contextStore" where
  \<comment> \<open>the catch block of \<open>updateContextVariables\<close>\<close>
  "resetContexts ctx = foldl (\<lambda>c key. setContext key False c) ctx contextKeyValues"

definition updateContextVariables :: "env \<Rightarrow> contextStore \<Rightarrow> error + contextStore" where
  \<comment> \<open>\<open>Inr\<close> is the context after the promise has resolved, \<open>Inl\<close> a rejection. In the try
      block only \<open>getCurrentBranch\<close> throws: the installation and initialization checks and
      \<open>getBranchList\<close> catch their own failures, and the refresh of the tree view only fires
      an event. The catch block starts from the context as the two writes before the throw
      left it.\<close>
  "updateContextVariables e ctx0 =
     (let ctx1 = setContext (isInstalled contextKeys) (isGitFlowNextInstalled e) ctx0;
          ctx2 = setContext (isInitialized contextKeys) (isGitFlowInitialized e) ctx1
      in case getCurrentBranch e of
           Inl err \<Rightarrow> Inr (resetContexts ctx2)
         | Inr branchInfo \<Rightarrow>
             (let ctx3 = setContext (isOnTopicBranch contextKeys)
                           (type branchInfo \<noteq> main \<and> type branchInfo \<noteq> develop
                            \<and> type branchInfo \<noteq> unknown) ctx2;
                  ctx4 = setContext (isOnFeatureBranch contextKeys) (type branchInfo = feature) ctx3;
                  ctx5 = setContext (isOnReleaseBranch contextKeys) (type branchInfo = release) ctx4;
                  ctx6 = setContext (isOnHotfixBranch contextKeys) (type branchInfo = hotfix) ctx5;
                  ctx7 = setContext (isOnSupportBranch contextKeys) (type branchInfo = support) ctx6;
                  ctx8 = setContext (isOnBugfixBranch contextKeys) (type branchInfo = bugfix) ctx7;
                  features = getBranchList e (js ''feature'');
                  releases = getBranchList e (js ''release'');
                  hotfixes = getBranchList e (js ''hotfix'');
                  supports = getBranchList e (js ''support'');
                  bugfixes = getBranchList e (js ''bugfix'');
                  ctx9 = setContext (featuresExist contextKeys) (length features > 0) ctx8;
                  ctx10 = setContext (releasesExist contextKeys) (length releases > 0) ctx9;
                  ctx11 = setContext (hotfixesExist contextKeys) (length hotfixes > 0) ctx10;
                  ctx12 = setContext (supportsExist contextKeys) (length supports > 0) ctx11;
                  ctx13 = setContext (bugfixesExist contextKeys) (length bugfixes > 0) ctx12
              in Inr ctx13))"

definition existenceFlags :: "(jsstring \<times> jsstring) list" where
  \<comment> \<open>the pairing of \<open>updateContextVariables\<close>: the branch type listed and the context key
      that receives \<open>length > 0\<close>\<close>
  "existenceFlags =
     [(js ''feature'', featuresExist contextKeys), (js ''release'', releasesExist contextKeys),
      (js ''hotfix'', hotfixesExist contextKeys), (js ''support'', supportsExist contextKeys),
      (js ''bugfix'', bugfixesExist contextKeys)]"

section \<open>The save handler and its timers\<close>

text \<open>
  The event loop as far as the save handler uses it: the clock in milliseconds, the
  timers set by \<open>setTimeout\<close> (the time each is due, in the order they were set; none is
  ever cleared, the source has no \<open>clearTimeout\<close>), and the log of the times at which
  \<open>updateContextVariables\<close> was started by a timer.
\<close>

record eventLoop =
  now :: nat
  timers :: "nat list"
  refreshes :: "nat list"

definition onDidSaveTextDocument :: "jsstring \<Rightarrow> eventLoop \<Rightarrow> eventLoop" where
  "onDidSaveTextDocument fileName l =
     (if includesStr fileName (js ''.git/'') \<or> endsWith fileName (js ''.gitignore'') then
        l\<lparr>timers := timers l @ [now l + 1000]\<rparr>
      else l)"

definition elapse :: "nat \<Rightarrow> eventLoop \<Rightarrow> eventLoop" where
  \<comment> \<open>\<open>d\<close> milliseconds pass: the timers that are due by then fire, each starting a refresh\<close>
  "elapse d l =
     \<lparr>now = now l + d,
      timers = filter (\<lambda>t. t > now l + d) (timers l),
      refreshes = refreshes l @ filter (\<lambda>t. t \<le> now l + d) (timers l)\<rparr>"

datatype event = Save jsstring | Wait nat

fun run :: "event list \<Rightarrow> eventLoop \<Rightarrow> eventLoop" where
  "run [] l = l"
| "run (Save fileName # evs) l = run evs (onDidSaveTextDocument fileName l)"
| "run (Wait d # evs) l = run evs (elapse d l)"

definition idle :: eventLoop where
  "idle = \<lparr>now = 0, timers = [], refreshes = []\<rparr>"

definition isGitSave :: "event \<Rightarrow> bool" where
  \<comment> \<open>the events that pass the test of the save handler\<close>
  "isGitSave ev =
     (case ev of
        Save fileName \<Rightarrow> includesStr fileName (js ''.git/'') \<or> endsWith fileName (js ''.gitignore'')
      | Wait d \<Rightarrow> False)"

section \<open>Sample inputs\<close>

definition notARepository :: env where
  \<comment> \<open>a folder is open, and every command fails in it\<close>
  "notARepository =
     \<lparr>workspaceFolders = [js ''/repo''],
      execAsync = (\<lambda>command cwd. Inl (Error (js ''fatal: not a git repository''))),
      declinedInstallations = [], isMac = False, installChoice = None\<rparr>"

definition detachedHead :: env where
  \<comment> \<open>every command succeeds and prints nothing, as \<open>git branch --show-current\<close> does on a
      detached HEAD\<close>
  "detachedHead =
     \<lparr>workspaceFolders = [js ''/repo''],
      execAsync = (\<lambda>command cwd. Inr []),
      declinedInstallations = [], isMac = False, installChoice = None\<rparr>"

definition noWorkspace :: env where
  \<comment> \<open>no folder is open; git-flow is installed\<close>
  "noWorkspace =
     \<lparr>workspaceFolders = [],
      execAsync = (\<lambda>command cwd. Inr []),
      declinedInstallations = [], isMac = False, installChoice = None\<rparr>"

definition onFeatureLogin :: env where
  \<comment> \<open>the branch \<open>feature/login\<close> is checked out\<close>
  "onFeatureLogin =
     \<lparr>workspaceFolders = [js ''/repo''],
      execAsync = (\<lambda>command cwd. Inr (js ''feature/login'' @ [10])),
      declinedInstallations = [], isMac = False, installChoice = None\<rparr>"

definition supportListFails :: env where
  \<comment> \<open>on \<open>develop\<close>, with one feature branch; the list command fails for \<open>support\<close> only\<close>
  "supportListFails =
     \<lparr>workspaceFolders = [js ''/repo''],
      execAsync = (\<lambda>command cwd.
        if command = js ''git flow support list '' then Inl (Error (js ''Command failed''))
        else if command = js ''git branch --show-current'' then Inr (js ''develop'' @ [10])
        else if command = js ''git flow feature list '' then Inr (js ''login'' @ [10])
        else Inr []),
      declinedInstallations = [], isMac = False, installChoice = None\<rparr>"

definition featureListOutput :: jsstring where
  \<comment> \<open>a header line, a branch with blanks around it, and an empty last piece\<close>
  "featureListOutput = js ''Feature branches:'' @ [10] @ js ''  login '' @ [10]"

definition keepLocalForced :: configuration where
  \<comment> \<open>features are kept locally, and deletion is forced\<close>
  "keepLocalForced =
     \<lparr>strings = [js ''feature.keepBranch'' \<mapsto> js ''keep-local''],
      booleans = [js ''forceDelete'' \<mapsto> True]\<rparr>"

definition dismissPrompt :: "jsstring \<Rightarrow> jsstring option" where
  \<comment> \<open>the user dismisses the tag-message prompt\<close>
  "dismissPrompt v = None"

definition tagPrefixNotag :: configuration where
  \<comment> \<open>releases are tagged, and the tag prefix is the text \<open>--notag\<close>\<close>
  "tagPrefixNotag =
     \<lparr>strings = [js ''release.tagPrefix'' \<mapsto> js ''--notag''],
      booleans = [js ''release.createTag'' \<mapsto> True]\<rparr>"

definition signedReleaseTags :: configuration where
  \<comment> \<open>releases are tagged with prefix \<open>v\<close>, and tags are signed\<close>
  "signedReleaseTags =
     \<lparr>strings = [js ''release.tagPrefix'' \<mapsto> js ''v''],
      booleans = [js ''release.createTag'' \<mapsto> True, js ''signTags'' \<mapsto> True]\<rparr>"

definition crlfFailure :: jsstring where
  \<comment> \<open>a failure text whose lines end with CR LF\<close>
  "crlfFailure = js ''Command failed: git flow'' @ [10] @ js ''Error: boom'' @ [13, 10]"

definition lfFailure :: jsstring where
  \<comment> \<open>the same failure text with lines that end with LF\<close>
  "lfFailure = js ''Command failed: git flow'' @ [10] @ js ''Error: boom'' @ [10]"

definition twoSaves :: "event list" where
  \<comment> \<open>two saves under the metadata directory, 100 ms apart, and then a quiet second\<close>
  "twoSaves =
     [Save (js ''/repo/.git/HEAD''), Wait 100, Save (js ''/repo/.git/HEAD''), Wait 1000]"

section \<open>String lemmas\<close>

lemma startsWith_append [simp]: "startsWith (p @ s) p"
  by (simp add: startsWith_def)

lemma replaceFirst_prefix:
  assumes "p \<noteq> []"
  shows "replaceFirst (p @ s) p [] = s"
proof -
  obtain c cs where pc: "p = c # cs"
    using assms by (cases p) auto
  have "startsWith ((c # cs) @ s) (c # cs)"
    by (rule startsWith_append)
  then show ?thesis
    by (simp add: pc)
qed

lemma dropWhile_last: "dropWhile P xs \<noteq> [] \<Longrightarrow> last (dropWhile P xs) = last xs"
  by (induction xs) (auto split: if_splits)

lemma dropWhile_id_iff: "(dropWhile P xs = xs) = (xs = [] \<or> \<not> P (hd xs))"
  by (cases xs) (auto simp: dropWhile_eq_Cons_conv)

lemma trim_Nil: "trim [] = []"
  by (simp add: trim_def)

lemma trim_Nil_or_ends:
  "trim s = [] \<or> (\<not> isWhiteSpace (hd (trim s)) \<and> \<not> isWhiteSpace (last (trim s)))"
proof (cases "trim s = []")
  case True
  then show ?thesis by simp
next
  case False
  define ys where "ys = dropWhile isWhiteSpace s"
  define zs where "zs = dropWhile isWhiteSpace (rev ys)"
  have t: "trim s = rev zs"
    by (simp add: trim_def ys_def zs_def)
  have zs: "zs \<noteq> []"
    using False t by simp
  then have ys: "ys \<noteq> []"
    by (auto simp: zs_def)
  have "\<not> isWhiteSpace (hd zs)"
    using zs unfolding zs_def by (rule hd_dropWhile)
  then have l: "\<not> isWhiteSpace (last (trim s))"
    using zs by (simp add: t last_rev)
  have "last zs = last (rev ys)"
    using zs unfolding zs_def by (rule dropWhile_last)
  then have "hd (trim s) = hd ys"
    using zs ys by (simp add: t hd_rev last_rev)
  moreover have "\<not> isWhiteSpace (hd ys)"
    using ys unfolding ys_def by (rule hd_dropWhile)
  ultimately show ?thesis
    using l by simp
qed

lemma trim_idem: "trim (trim s) = trim s"
proof (cases "trim s = []")
  case True
  with trim_Nil show ?thesis by simp
next
  case False
  then have e: "\<not> isWhiteSpace (hd (trim s))" "\<not> isWhiteSpace (last (trim s))"
    using trim_Nil_or_ends [of s] by auto
  have 1: "dropWhile isWhiteSpace (trim s) = trim s"
    using e(1) by (simp add: dropWhile_id_iff)
  have 2: "dropWhile isWhiteSpace (rev (trim s)) = rev (trim s)"
    using e(2) False by (simp add: dropWhile_id_iff hd_rev)
  show ?thesis
    unfolding trim_def [of "trim s"] 1 2 by simp
qed

section \<open>Properties of the classification\<close>

text \<open>
  Claim C2. For every topic type \<open>k\<close> (feature, release, hotfix, support, bugfix) with
  prefix \<open>p\<close> and every non-empty name \<open>n\<close>, classifying the branch name \<open>p @ n\<close> yields
  type \<open>k\<close> and short name \<open>n\<close>, and the full name of the result is the prefix of its
  type followed by its short name. \<open>classify\<close> is applied to the branch name as
  \<open>getCurrentBranch\<close> has it after trimming the output of git, so \<open>getCurrentBranch\<close>
  returns this result whenever git prints \<open>p @ n\<close>.
\<close>

theorem classify_topic_prefix:
  assumes "topicPrefix k = Some p" and "n \<noteq> []"
  shows "classify (p @ n) = \<lparr>type = k, name = n, fullName = p @ n\<rparr>
         \<and> fullName (classify (p @ n)) = p @ name (classify (p @ n))
         \<and> (\<forall>e stdout.
               workspaceFolders e \<noteq> []
               \<and> execAsync e (js ''git branch --show-current'') (Some (hd (workspaceFolders e)))
                   = Inr stdout
               \<and> trim stdout = p @ n
               \<longrightarrow> getCurrentBranch e = Inr \<lparr>type = k, name = n, fullName = p @ n\<rparr>)"
proof -
  have p: "p \<noteq> []"
    using assms(1) by (cases k) (auto simp: topicPrefix_def js_def)
  have "classify (p @ n) = \<lparr>type = k, name = n, fullName = p @ n\<rparr>"
  proof (cases k)
    case feature
    then have "p = js ''feature/''"
      using assms(1) by (simp add: topicPrefix_def)
    then show ?thesis
      using feature p by (simp add: classify_def replaceFirst_prefix)
  next
    case release
    then have "p = js ''release/''"
      using assms(1) by (simp add: topicPrefix_def)
    moreover have "\<not> startsWith (js ''release/'' @ n) (js ''feature/'')"
      by (simp add: startsWith_def js_def)
    ultimately show ?thesis
      using release p by (simp add: classify_def replaceFirst_prefix)
  next
    case hotfix
    then have "p = js ''hotfix/''"
      using assms(1) by (simp add: topicPrefix_def)
    moreover have "\<not> startsWith (js ''hotfix/'' @ n) (js ''feature/'')"
      "\<not> startsWith (js ''hotfix/'' @ n) (js ''release/'')"
      by (simp_all add: startsWith_def js_def)
    ultimately show ?thesis
      using hotfix p by (simp add: classify_def replaceFirst_prefix)
  next
    case support
    then have "p = js ''support/''"
      using assms(1) by (simp add: topicPrefix_def)
    moreover have "\<not> startsWith (js ''support/'' @ n) (js ''feature/'')"
      "\<not> startsWith (js ''support/'' @ n) (js ''release/'')"
      "\<not> startsWith (js ''support/'' @ n) (js ''hotfix/'')"
      by (simp_all add: startsWith_def js_def)
    ultimately show ?thesis
      using support p by (simp add: classify_def replaceFirst_prefix)
  next
    case bugfix
    then have "p = js ''bugfix/''"
      using assms(1) by (simp add: topicPrefix_def)
    moreover have "\<not> startsWith (js ''bugfix/'' @ n) (js ''feature/'')"
      "\<not> startsWith (js ''bugfix/'' @ n) (js ''release/'')"
      "\<not> startsWith (js ''bugfix/'' @ n) (js ''hotfix/'')"
      "\<not> startsWith (js ''bugfix/'' @ n) (js ''support/'')"
      by (simp_all add: startsWith_def js_def)
    ultimately show ?thesis
      using bugfix p by (simp add: classify_def replaceFirst_prefix)
  qed (use assms(1) in \<open>simp_all add: topicPrefix_def\<close>)
  then show ?thesis
    by (simp add: getCurrentBranch_def)
qed

text \<open>The statement at the branch \<open>feature/login\<close>.\<close>

theorem classify_topic_prefix_witness:
  "topicPrefix feature = Some (js ''feature/'') \<and> js ''login'' \<noteq> []
   \<and> classify (js ''feature/'' @ js ''login'')
       = \<lparr>type = feature, name = js ''login'', fullName = js ''feature/'' @ js ''login''\<rparr>
   \<and> execAsync onFeatureLogin (js ''git branch --show-current'')
         (Some (hd (workspaceFolders onFeatureLogin))) = Inr (js ''feature/login'' @ [10])
   \<and> getCurrentBranch onFeatureLogin
       = Inr \<lparr>type = feature, name = js ''login'', fullName = js ''feature/'' @ js ''login''\<rparr>"
proof -
  have h: "topicPrefix feature = Some (js ''feature/'')"
    by (simp add: topicPrefix_def)
  have n: "js ''login'' \<noteq> []"
    by (simp add: js_def)
  have e: "workspaceFolders onFeatureLogin \<noteq> []
           \<and> execAsync onFeatureLogin (js ''git branch --show-current'')
                 (Some (hd (workspaceFolders onFeatureLogin))) = Inr (js ''feature/login'' @ [10])
           \<and> trim (js ''feature/login'' @ [10]) = js ''feature/'' @ js ''login''"
    by (simp add: onFeatureLogin_def js_def trim_def isWhiteSpace_def isLineTerminator_def)
  show ?thesis
    using classify_topic_prefix [OF h n] h n e by blast
qed

text \<open>
  Claim C6. \<open>getCurrentBranch\<close> fails only when the current branch cannot be obtained:
  no workspace folder is open or the git query fails, and the error ``Not in a git
  repository'' is thrown exactly when a folder is open and the query fails. When the
  query succeeds and the trimmed name starts with no topic prefix and is none of
  \<open>main\<close>, \<open>master\<close>, \<open>develop\<close> (the empty name of a detached HEAD included), the result
  has type \<open>unknown\<close> with short name and full name both equal to that name.
\<close>

theorem getCurrentBranch_unknown:
  "(\<forall>err. getCurrentBranch e = Inl err \<longrightarrow>
      workspaceFolders e = []
      \<or> (\<exists>err'. execAsync e (js ''git branch --show-current'') (Some (hd (workspaceFolders e)))
                  = Inl err'))
   \<and> (getCurrentBranch e = Inl (Error (js ''Not in a git repository'')) \<longleftrightarrow>
        workspaceFolders e \<noteq> []
        \<and> (\<exists>err'. execAsync e (js ''git branch --show-current'') (Some (hd (workspaceFolders e)))
                    = Inl err'))
   \<and> (\<forall>stdout.
        workspaceFolders e \<noteq> []
        \<and> execAsync e (js ''git branch --show-current'') (Some (hd (workspaceFolders e)))
            = Inr stdout
        \<and> (\<forall>k p. topicPrefix k = Some p \<longrightarrow> \<not> startsWith (trim stdout) p)
        \<and> trim stdout \<noteq> js ''main'' \<and> trim stdout \<noteq> js ''master''
        \<and> trim stdout \<noteq> js ''develop''
        \<longrightarrow> getCurrentBranch e
              = Inr \<lparr>type = unknown, name = trim stdout, fullName = trim stdout\<rparr>)"
proof (intro conjI allI impI)
  fix err
  assume "getCurrentBranch e = Inl err"
  then show "workspaceFolders e = []
      \<or> (\<exists>err'. execAsync e (js ''git branch --show-current'') (Some (hd (workspaceFolders e)))
                  = Inl err')"
    by (auto simp: getCurrentBranch_def Let_def split: if_splits sum.splits)
next
  have ne: "js ''No workspace folder open. Please open a git repository folder.''
            \<noteq> js ''Not in a git repository''"
    by (simp add: js_def)
  show "getCurrentBranch e = Inl (Error (js ''Not in a git repository'')) \<longleftrightarrow>
        workspaceFolders e \<noteq> []
        \<and> (\<exists>err'. execAsync e (js ''git branch --show-current'') (Some (hd (workspaceFolders e)))
                    = Inl err')"
    using ne by (auto simp: getCurrentBranch_def Let_def split: if_splits sum.splits)
next
  fix stdout
  assume a: "workspaceFolders e \<noteq> []
        \<and> execAsync e (js ''git branch --show-current'') (Some (hd (workspaceFolders e)))
            = Inr stdout
        \<and> (\<forall>k p. topicPrefix k = Some p \<longrightarrow> \<not> startsWith (trim stdout) p)
        \<and> trim stdout \<noteq> js ''main'' \<and> trim stdout \<noteq> js ''master''
        \<and> trim stdout \<noteq> js ''develop''"
  then have np: "\<And>k p. topicPrefix k = Some p \<Longrightarrow> \<not> startsWith (trim stdout) p"
    by blast
  have "\<not> startsWith (trim stdout) (js ''feature/'')"
    "\<not> startsWith (trim stdout) (js ''release/'')"
    "\<not> startsWith (trim stdout) (js ''hotfix/'')"
    "\<not> startsWith (trim stdout) (js ''support/'')"
    "\<not> startsWith (trim stdout) (js ''bugfix/'')"
    using np [of feature] np [of release] np [of hotfix] np [of support] np [of bugfix]
    by (simp_all add: topicPrefix_def)
  then have "classify (trim stdout) = \<lparr>type = unknown, name = trim stdout, fullName = trim stdout\<rparr>"
    using a by (simp add: classify_def)
  then show "getCurrentBranch e
              = Inr \<lparr>type = unknown, name = trim stdout, fullName = trim stdout\<rparr>"
    using a by (simp add: getCurrentBranch_def)
qed


text \<open>
  The statement at a folder that is not a repository, and at a detached HEAD, where the
  name is empty.
\<close>

theorem getCurrentBranch_unknown_witness:
  "getCurrentBranch notARepository = Inl (Error (js ''Not in a git repository''))
   \<and> workspaceFolders notARepository \<noteq> []
   \<and> execAsync detachedHead (js ''git branch --show-current'')
        (Some (hd (workspaceFolders detachedHead))) = Inr []
   \<and> getCurrentBranch detachedHead = Inr \<lparr>type = unknown, name = [], fullName = []\<rparr>"
proof -
  have 1: "workspaceFolders notARepository \<noteq> []
        \<and> (\<exists>err'. execAsync notARepository (js ''git branch --show-current'')
                     (Some (hd (workspaceFolders notARepository))) = Inl err')"
    by (simp add: notARepository_def)
  have 2: "workspaceFolders detachedHead \<noteq> []
        \<and> execAsync detachedHead (js ''git branch --show-current'')
            (Some (hd (workspaceFolders detachedHead))) = Inr []
        \<and> (\<forall>k p. topicPrefix k = Some p \<longrightarrow> \<not> startsWith (trim []) p)
        \<and> trim [] \<noteq> js ''main'' \<and> trim [] \<noteq> js ''master''
        \<and> trim [] \<noteq> js ''develop''"
    by (auto simp: detachedHead_def trim_Nil js_def topicPrefix_def startsWith_def
        split: BranchType.splits)
  show ?thesis
    using getCurrentBranch_unknown [of notARepository] getCurrentBranch_unknown [of detachedHead]
      1 2 by (simp add: trim_Nil)
qed

section \<open>Properties of the branch lists\<close>

lemma branchLines_elem:
  assumes "b \<in> set (branchLines output)"
  shows "\<exists>line \<in> set (splitLines output).
           b = trim line \<and> b \<noteq> [] \<and> trim b = b \<and> \<not> endsWith b (js '':'')"
  using assms by (auto simp: branchLines_def trim_idem)

text \<open>
  Claim C10. For every raw output text of the list command, every element of the branch
  list is the trimmed text of a line of that output, is not empty, is itself trimmed,
  and does not end with a colon (so header lines such as ``Feature branches:'' are
  left out). \<open>getBranchList\<close> returns such a list whenever the command returns, and the
  empty list whenever the command throws; the tree view's \<open>getBranchList\<close> does the
  same, and also returns the empty list when no folder is open. Neither throws.
\<close>

theorem getBranchList_lines:
  "(\<forall>b \<in> set (branchLines output).
      \<exists>line \<in> set (splitLines output).
        b = trim line \<and> b \<noteq> [] \<and> trim b = b \<and> \<not> endsWith b (js '':''))
   \<and> (\<forall>b \<in> set (getBranchList e ty).
        \<exists>out. executeGitFlowCommand e (ty @ js '' list'') [] = Inr out
              \<and> b \<in> set (branchLines out))
   \<and> (\<forall>err. executeGitFlowCommand e (ty @ js '' list'') [] = Inl err
        \<longrightarrow> getBranchList e ty = [])
   \<and> (\<forall>b \<in> set (treeGetBranchList e ty).
        \<exists>out. execAsync e (js ''git flow '' @ ty @ js '' list'') (Some (hd (workspaceFolders e)))
               = Inr out
              \<and> b \<in> set (branchLines out))
   \<and> (workspaceFolders e = []
        \<or> (\<exists>err. execAsync e (js ''git flow '' @ ty @ js '' list'')
                     (Some (hd (workspaceFolders e))) = Inl err)
        \<longrightarrow> treeGetBranchList e ty = [])"
proof (intro conjI)
  show "\<forall>b \<in> set (branchLines output).
      \<exists>line \<in> set (splitLines output).
        b = trim line \<and> b \<noteq> [] \<and> trim b = b \<and> \<not> endsWith b (js '':'')"
    using branchLines_elem by blast
  show "\<forall>b \<in> set (getBranchList e ty).
        \<exists>out. executeGitFlowCommand e (ty @ js '' list'') [] = Inr out
              \<and> b \<in> set (branchLines out)"
    by (cases "executeGitFlowCommand e (ty @ js '' list'') []") (auto simp: getBranchList_def)
  show "\<forall>err. executeGitFlowCommand e (ty @ js '' list'') [] = Inl err
        \<longrightarrow> getBranchList e ty = []"
    by (simp add: getBranchList_def)
  show "\<forall>b \<in> set (treeGetBranchList e ty).
        \<exists>out. execAsync e (js ''git flow '' @ ty @ js '' list'') (Some (hd (workspaceFolders e)))
               = Inr out
              \<and> b \<in> set (branchLines out)"
    by (cases "execAsync e (js ''git flow '' @ ty @ js '' list'') (Some (hd (workspaceFolders e)))")
      (auto simp: treeGetBranchList_def Let_def split: if_splits)
  show "workspaceFolders e = []
        \<or> (\<exists>err. execAsync e (js ''git flow '' @ ty @ js '' list'')
                     (Some (hd (workspaceFolders e))) = Inl err)
        \<longrightarrow> treeGetBranchList e ty = []"
    by (auto simp: treeGetBranchList_def Let_def)
qed

lemma featureListOutput_lines: "branchLines featureListOutput = [js ''login'']"
  by (simp add: featureListOutput_def branchLines_def js_def trim_def isWhiteSpace_def
      isLineTerminator_def endsWith_def)

text \<open>
  The statement at an output with a header line and one branch, and at a folder where
  the list command fails.
\<close>

theorem getBranchList_lines_witness:
  "branchLines featureListOutput = [js ''login'']
   \<and> js ''  login '' \<in> set (splitLines featureListOutput)
   \<and> trim (js ''  login '') = js ''login''
   \<and> getBranchList notARepository (js ''feature'') = []
   \<and> treeGetBranchList notARepository (js ''feature'') = []"
proof -
  have 1: "\<exists>err. executeGitFlowCommand notARepository (js ''feature'' @ js '' list'') [] = Inl err"
    by (simp add: executeGitFlowCommand_def isGitFlowNextInstalled_def notARepository_def)
  have 2: "workspaceFolders notARepository = []
        \<or> (\<exists>err. execAsync notARepository (js ''git flow '' @ js ''feature'' @ js '' list'')
                     (Some (hd (workspaceFolders notARepository))) = Inl err)"
    by (simp add: notARepository_def)
  have 3: "js ''  login '' \<in> set (splitLines featureListOutput)"
    by (simp add: featureListOutput_def js_def)
  have 4: "trim (js ''  login '') = js ''login''"
    by (simp add: js_def trim_def isWhiteSpace_def isLineTerminator_def)
  show ?thesis
    using getBranchList_lines [of featureListOutput notARepository "js ''feature''"] 1 2 3 4
      featureListOutput_lines
    by blast
qed

section \<open>Properties of the state refresh\<close>

lemma contextKeyValues_distinct: "distinct contextKeyValues"
  by (simp add: contextKeyValues_def contextKeys_def js_def)

lemma foldl_setContext_other:
  "key \<notin> set keys \<Longrightarrow> foldl (\<lambda>c k. setContext k v c) ctx keys key = ctx key"
  by (induction keys arbitrary: ctx) (auto simp: setContext_def)

lemma foldl_setContext_same:
  "key \<in> set keys \<Longrightarrow> foldl (\<lambda>c k. setContext k v c) ctx keys key = Some v"
proof (induction keys arbitrary: ctx)
  case Nil
  then show ?case by simp
next
  case (Cons k keys)
  show ?case
  proof (cases "key \<in> set keys")
    case True
    then show ?thesis
      using Cons.IH by simp
  next
    case False
    with Cons.prems have k: "key = k" by simp
    have "foldl (\<lambda>c k. setContext k v c) ctx (k # keys) key
          = foldl (\<lambda>c k. setContext k v c) (setContext k v ctx) keys key"
      by simp
    also have "\<dots> = setContext k v ctx key"
      using False by (rule foldl_setContext_other)
    also have "\<dots> = Some v"
      using k by (simp add: setContext_def)
    finally show ?thesis .
  qed
qed

lemma resetContexts_False: "key \<in> set contextKeyValues \<Longrightarrow> resetContexts ctx key = Some False"
  by (simp add: resetContexts_def foldl_setContext_same)

lemma existenceFlags_keys: "snd ` set existenceFlags \<subseteq> set contextKeyValues"
  by (simp add: existenceFlags_def contextKeyValues_def)

text \<open>
  Claim C1. \<open>updateContextVariables\<close> never raises to its caller: its promise always
  resolves. Whenever \<open>getCurrentBranch\<close> fails (no workspace folder open, or not a git
  repository), the published context has every context key at false: the flags for
  being on a topic branch and on a branch of each kind (so no current kind is
  published), the existence flag of every kind, and the installed and initialized flags.
\<close>

theorem updateContextVariables_degrades:
  "(\<exists>ctx'. updateContextVariables e ctx = Inr ctx')
   \<and> (\<forall>err. getCurrentBranch e = Inl err \<longrightarrow>
        (\<exists>ctx'. updateContextVariables e ctx = Inr ctx'
           \<and> (\<forall>key \<in> set contextKeyValues. ctx' key = Some False)
           \<and> (\<forall>(ty, key) \<in> set existenceFlags. ctx' key = Some False)))"
proof (intro conjI allI impI)
  show "\<exists>ctx'. updateContextVariables e ctx = Inr ctx'"
    by (cases "getCurrentBranch e") (simp_all add: updateContextVariables_def Let_def)
next
  fix err
  assume f: "getCurrentBranch e = Inl err"
  define ctx2 where
    "ctx2 = setContext (isInitialized contextKeys) (isGitFlowInitialized e)
              (setContext (isInstalled contextKeys) (isGitFlowNextInstalled e) ctx)"
  have u: "updateContextVariables e ctx = Inr (resetContexts ctx2)"
    using f by (simp add: updateContextVariables_def Let_def ctx2_def)
  have a: "\<forall>key \<in> set contextKeyValues. resetContexts ctx2 key = Some False"
    by (simp add: resetContexts_False)
  then have "\<forall>(ty, key) \<in> set existenceFlags. resetContexts ctx2 key = Some False"
    using existenceFlags_keys by fastforce
  with u a
  show "\<exists>ctx'. updateContextVariables e ctx = Inr ctx'
           \<and> (\<forall>key \<in> set contextKeyValues. ctx' key = Some False)
           \<and> (\<forall>(ty, key) \<in> set existenceFlags. ctx' key = Some False)"
    by blast
qed

text \<open>The statement with no workspace folder open.\<close>

theorem updateContextVariables_degrades_witness:
  "getCurrentBranch noWorkspace
     = Inl (Error (js ''No workspace folder open. Please open a git repository folder.''))
   \<and> (\<exists>ctx'. updateContextVariables noWorkspace Map.empty = Inr ctx'
         \<and> ctx' (isInstalled contextKeys) = Some False
         \<and> ctx' (isOnTopicBranch contextKeys) = Some False
         \<and> ctx' (supportsExist contextKeys) = Some False)"
proof -
  have 1: "getCurrentBranch noWorkspace
     = Inl (Error (js ''No workspace folder open. Please open a git repository folder.''))"
    by (simp add: getCurrentBranch_def noWorkspace_def)
  have 2: "isInstalled contextKeys \<in> set contextKeyValues"
    "isOnTopicBranch contextKeys \<in> set contextKeyValues"
    "supportsExist contextKeys \<in> set contextKeyValues"
    by (simp_all add: contextKeyValues_def)
  show ?thesis
    using updateContextVariables_degrades [of noWorkspace Map.empty] 1 2 by blast
qed


lemmas contextKeys_neq =
  contextKeyValues_distinct [unfolded contextKeyValues_def, simplified]

lemma contextKeyValues_rev_distinct: "distinct (rev contextKeyValues)"
  by (simp add: contextKeyValues_distinct)

lemmas contextKeys_neq_rev =
  contextKeyValues_rev_distinct [unfolded contextKeyValues_def rev.simps append.simps, simplified]

lemma existence_flag:
  assumes "ctx' key = Some (length (getBranchList e ty) > 0)"
  shows "(\<forall>err. executeGitFlowCommand e (ty @ js '' list'') [] = Inl err \<longrightarrow> ctx' key = Some False)
       \<and> (\<forall>out. executeGitFlowCommand e (ty @ js '' list'') [] = Inr out
              \<longrightarrow> ctx' key = Some (branchLines out \<noteq> []))"
  using assms by (auto simp: getBranchList_def)

text \<open>
  Claim C7. The existence queries of a refresh run once the current branch has been
  read, and they are independent: for each kind, the existence flag is false when that
  kind's list command throws, and otherwise says whether that kind's own output lists
  a branch, whatever the queries of the other kinds do. The refresh is not aborted: its
  promise resolves, and the flags written before the queries keep the values of the
  current branch and of the installation.
\<close>

theorem updateContextVariables_independent:
  assumes "getCurrentBranch e = Inr b"
  shows "\<exists>ctx'. updateContextVariables e ctx = Inr ctx'
     \<and> (\<forall>(ty, key) \<in> set existenceFlags.
          (\<forall>err. executeGitFlowCommand e (ty @ js '' list'') [] = Inl err
             \<longrightarrow> ctx' key = Some False)
          \<and> (\<forall>out. executeGitFlowCommand e (ty @ js '' list'') [] = Inr out
                \<longrightarrow> ctx' key = Some (branchLines out \<noteq> [])))
     \<and> ctx' (isOnTopicBranch contextKeys)
         = Some (type b \<noteq> main \<and> type b \<noteq> develop \<and> type b \<noteq> unknown)
     \<and> ctx' (isOnFeatureBranch contextKeys) = Some (type b = feature)
     \<and> ctx' (isOnReleaseBranch contextKeys) = Some (type b = release)
     \<and> ctx' (isOnHotfixBranch contextKeys) = Some (type b = hotfix)
     \<and> ctx' (isOnSupportBranch contextKeys) = Some (type b = support)
     \<and> ctx' (isOnBugfixBranch contextKeys) = Some (type b = bugfix)
     \<and> ctx' (isInstalled contextKeys) = Some (isGitFlowNextInstalled e)
     \<and> ctx' (isInitialized contextKeys) = Some (isGitFlowInitialized e)"
proof -
  obtain ctx' where u: "updateContextVariables e ctx = Inr ctx'"
    using assms by (simp add: updateContextVariables_def Let_def)
  have v: "ctx' (featuresExist contextKeys) = Some (length (getBranchList e (js ''feature'')) > 0)"
    "ctx' (releasesExist contextKeys) = Some (length (getBranchList e (js ''release'')) > 0)"
    "ctx' (hotfixesExist contextKeys) = Some (length (getBranchList e (js ''hotfix'')) > 0)"
    "ctx' (supportsExist contextKeys) = Some (length (getBranchList e (js ''support'')) > 0)"
    "ctx' (bugfixesExist contextKeys) = Some (length (getBranchList e (js ''bugfix'')) > 0)"
    "ctx' (isOnTopicBranch contextKeys)
         = Some (type b \<noteq> main \<and> type b \<noteq> develop \<and> type b \<noteq> unknown)"
    "ctx' (isOnFeatureBranch contextKeys) = Some (type b = feature)"
    "ctx' (isOnReleaseBranch contextKeys) = Some (type b = release)"
    "ctx' (isOnHotfixBranch contextKeys) = Some (type b = hotfix)"
    "ctx' (isOnSupportBranch contextKeys) = Some (type b = support)"
    "ctx' (isOnBugfixBranch contextKeys) = Some (type b = bugfix)"
    "ctx' (isInstalled contextKeys) = Some (isGitFlowNextInstalled e)"
    "ctx' (isInitialized contextKeys) = Some (isGitFlowInitialized e)"
    using u [symmetric] assms
    by (simp_all add: updateContextVariables_def Let_def setContext_def contextKeys_neq
        contextKeys_neq_rev)
  have "\<forall>(ty, key) \<in> set existenceFlags.
          (\<forall>err. executeGitFlowCommand e (ty @ js '' list'') [] = Inl err
             \<longrightarrow> ctx' key = Some False)
          \<and> (\<forall>out. executeGitFlowCommand e (ty @ js '' list'') [] = Inr out
                \<longrightarrow> ctx' key = Some (branchLines out \<noteq> []))"
    using existence_flag [of ctx' "featuresExist contextKeys" e "js ''feature''", OF v(1)]
      existence_flag [of ctx' "releasesExist contextKeys" e "js ''release''", OF v(2)]
      existence_flag [of ctx' "hotfixesExist contextKeys" e "js ''hotfix''", OF v(3)]
      existence_flag [of ctx' "supportsExist contextKeys" e "js ''support''", OF v(4)]
      existence_flag [of ctx' "bugfixesExist contextKeys" e "js ''bugfix''", OF v(5)]
    by (simp add: existenceFlags_def)
  with u v show ?thesis
    by blast
qed


lemma supportListFails_runs:
  "getCurrentBranch supportListFails
     = Inr \<lparr>type = develop, name = js ''develop'', fullName = js ''develop''\<rparr>"
  "executeGitFlowCommand supportListFails (js ''support'' @ js '' list'') []
     = Inl (Error (js ''Command failed''))"
  "executeGitFlowCommand supportListFails (js ''feature'' @ js '' list'') []
     = Inr (js ''login'' @ [10])"
  "executeGitFlowCommand supportListFails (js ''release'' @ js '' list'') [] = Inr []"
  "isGitFlowNextInstalled supportListFails"
  by (simp_all add: getCurrentBranch_def executeGitFlowCommand_def isGitFlowNextInstalled_def
      supportListFails_def classify_def startsWith_def js_def trim_def isWhiteSpace_def
      isLineTerminator_def)

lemma login_lines: "branchLines (js ''login'' @ [10]) = [js ''login'']" "branchLines [] = []"
  by (simp_all add: branchLines_def js_def trim_def isWhiteSpace_def isLineTerminator_def
      endsWith_def)

text \<open>
  The statement where the list command throws for \<open>support\<close> only, one feature branch
  exists and no release branch does.
\<close>

theorem updateContextVariables_independent_witness:
  "getCurrentBranch supportListFails
     = Inr \<lparr>type = develop, name = js ''develop'', fullName = js ''develop''\<rparr>
   \<and> executeGitFlowCommand supportListFails (js ''support'' @ js '' list'') []
       = Inl (Error (js ''Command failed''))
   \<and> executeGitFlowCommand supportListFails (js ''feature'' @ js '' list'') []
       = Inr (js ''login'' @ [10])
   \<and> (\<exists>ctx'. updateContextVariables supportListFails Map.empty = Inr ctx'
         \<and> ctx' (supportsExist contextKeys) = Some False
         \<and> ctx' (featuresExist contextKeys) = Some True
         \<and> ctx' (releasesExist contextKeys) = Some False
         \<and> ctx' (isInstalled contextKeys) = Some True)"
proof -
  have m: "(js ''support'', supportsExist contextKeys) \<in> set existenceFlags"
    "(js ''feature'', featuresExist contextKeys) \<in> set existenceFlags"
    "(js ''release'', releasesExist contextKeys) \<in> set existenceFlags"
    by (simp_all add: existenceFlags_def)
  obtain ctx' where c: "updateContextVariables supportListFails Map.empty = Inr ctx'"
    and f: "\<forall>(ty, key) \<in> set existenceFlags.
          (\<forall>err. executeGitFlowCommand supportListFails (ty @ js '' list'') [] = Inl err
             \<longrightarrow> ctx' key = Some False)
          \<and> (\<forall>out. executeGitFlowCommand supportListFails (ty @ js '' list'') [] = Inr out
                \<longrightarrow> ctx' key = Some (branchLines out \<noteq> []))"
    and i: "ctx' (isInstalled contextKeys) = Some (isGitFlowNextInstalled supportListFails)"
    using updateContextVariables_independent [OF supportListFails_runs(1), of Map.empty]
    by blast
  have "ctx' (supportsExist contextKeys) = Some False"
    using f m(1) supportListFails_runs(2) by blast
  moreover have "ctx' (featuresExist contextKeys) = Some True"
    using f m(2) supportListFails_runs(3) login_lines(1) by fastforce
  moreover have "ctx' (releasesExist contextKeys) = Some False"
    using f m(3) supportListFails_runs(4) login_lines(2) by fastforce
  moreover have "ctx' (isInstalled contextKeys) = Some True"
    using i supportListFails_runs(5) by simp
  ultimately show ?thesis
    using c supportListFails_runs(1-3) by blast
qed

section \<open>Properties of the argument resolvers\<close>

lemma flag_values:
  "js ''--keep'' \<noteq> js ''--force-delete''" "js ''--keeplocal'' \<noteq> js ''--force-delete''"
  "js ''--keepremote'' \<noteq> js ''--force-delete''"
  "js ''--keep'' \<noteq> js ''--keeplocal''" "js ''--keep'' \<noteq> js ''--keepremote''"
  "js ''--keeplocal'' \<noteq> js ''--keepremote''"
  by (simp_all add: js_def)

text \<open>
  Claim C8. For every branch type and configuration, the branch-retention options hold
  at most one of \<open>--keep\<close>, \<open>--keeplocal\<close>, \<open>--keepremote\<close>, and none of them when
  the retention mode is \<open>delete\<close>; they hold \<open>--force-delete\<close> if and only if the
  force-delete setting is true, whatever the retention mode.
\<close>

theorem getBranchRetentionOptions_flags:
  "length (filter (\<lambda>opt. opt \<in> set keepFlags) (getBranchRetentionOptions config branchType)) \<le> 1
   \<and> (getString config (branchType @ js ''.keepBranch'') (js ''delete'') = js ''delete''
        \<longrightarrow> filter (\<lambda>opt. opt \<in> set keepFlags) (getBranchRetentionOptions config branchType) = [])
   \<and> (js ''--force-delete'' \<in> set (getBranchRetentionOptions config branchType)
        \<longleftrightarrow> getBoolean config (js ''forceDelete'') False)"
proof -
  have d: "js ''delete'' \<noteq> js ''keep''" "js ''delete'' \<noteq> js ''keep-local''"
    "js ''delete'' \<noteq> js ''keep-remote''"
    by (simp_all add: js_def)
  show ?thesis
    using flag_values flag_values [symmetric] d
    by (simp add: getBranchRetentionOptions_def keepFlags_def Let_def)
qed

text \<open>
  The statement at the empty configuration (mode \<open>delete\<close>, nothing forced) and at a
  configuration that keeps features locally and forces deletion.
\<close>

theorem getBranchRetentionOptions_flags_witness:
  "getString emptyConfiguration (js ''feature'' @ js ''.keepBranch'') (js ''delete'') = js ''delete''
   \<and> getBranchRetentionOptions emptyConfiguration (js ''feature'') = []
   \<and> getBranchRetentionOptions keepLocalForced (js ''feature'')
       = [js ''--keeplocal'', js ''--force-delete'']
   \<and> length (filter (\<lambda>opt. opt \<in> set keepFlags)
         (getBranchRetentionOptions keepLocalForced (js ''feature''))) \<le> 1
   \<and> getBoolean keepLocalForced (js ''forceDelete'') False"
proof -
  have 1: "getString emptyConfiguration (js ''feature'' @ js ''.keepBranch'') (js ''delete'')
           = js ''delete''"
    by (simp add: getString_def emptyConfiguration_def)
  have 2: "getBranchRetentionOptions emptyConfiguration (js ''feature'') = []"
    by (simp add: getBranchRetentionOptions_def getString_def getBoolean_def
        emptyConfiguration_def js_def)
  have 3: "getBranchRetentionOptions keepLocalForced (js ''feature'')
       = [js ''--keeplocal'', js ''--force-delete'']"
    by (simp add: getBranchRetentionOptions_def getString_def getBoolean_def
        keepLocalForced_def js_def)
  show ?thesis
    using getBranchRetentionOptions_flags [of keepLocalForced "js ''feature''"]
      getBranchRetentionOptions_flags [of emptyConfiguration "js ''feature''"] 1 2 3
    by simp
qed


lemma tag_literals:
  "js ''--tagprefix'' \<notin> set tagFlags" "js ''--message'' \<notin> set tagFlags"
  "js ''--sign'' \<notin> set tagFlags" "js ''--signingkey'' \<notin> set tagFlags"
  "js ''--tag'' \<in> set tagFlags" "js ''--notag'' \<in> set tagFlags"
  by (simp_all add: tagFlags_def js_def)

lemma flagsOf_value: "opt \<in> set valueOptions \<Longrightarrow> flagsOf (opt # v # rest) = opt # flagsOf rest"
  by simp

lemma flagsOf_flag: "opt \<notin> set valueOptions \<Longrightarrow> flagsOf (opt # rest) = opt # flagsOf rest"
  by (cases rest) simp_all

lemma option_literals:
  "js ''--tagprefix'' \<in> set valueOptions" "js ''--message'' \<in> set valueOptions"
  "js ''--signingkey'' \<in> set valueOptions"
  "js ''--tag'' \<notin> set valueOptions" "js ''--notag'' \<notin> set valueOptions"
  "js ''--sign'' \<notin> set valueOptions"
  by (simp_all add: valueOptions_def js_def)

text \<open>
  Claim C4. For every branch type and every configuration, the tag options hold exactly
  one of the two flags \<open>--tag\<close> and \<open>--notag\<close>, never both and never neither: \<open>--tag\<close>
  when tag creation is on, \<open>--notag\<close> when it is off. The flags of the options are
  their elements other than the values passed after \<open>--tagprefix\<close>, \<open>--message\<close> and
  \<open>--signingkey\<close>.
\<close>

theorem getTagOptions_one_flag:
  "filter (\<lambda>opt. opt \<in> set tagFlags)
     (flagsOf (getTagOptions config showInputBox branchType branchName))
   = [if getBoolean config (branchType @ js ''.createTag'') False then js ''--tag''
      else js ''--notag'']
   \<and> length (filter (\<lambda>opt. opt \<in> set tagFlags)
        (flagsOf (getTagOptions config showInputBox branchType branchName))) = 1"
proof -
  have main: "filter (\<lambda>opt. opt \<in> set tagFlags)
     (flagsOf (getTagOptions config showInputBox branchType branchName))
   = [if getBoolean config (branchType @ js ''.createTag'') False then js ''--tag''
      else js ''--notag'']"
  proof (cases "getBoolean config (branchType @ js ''.createTag'') False")
    case False
    then have "getTagOptions config showInputBox branchType branchName = [js ''--notag'']"
      by (simp add: getTagOptions_def Let_def)
    then show ?thesis
      using False tag_literals(6) by simp
  next
    case True
    define prefixPart where
      "prefixPart =
         (if getString config (branchType @ js ''.tagPrefix'') [] \<noteq> []
             \<and> trim (getString config (branchType @ js ''.tagPrefix'') []) \<noteq> []
          then [js ''--tagprefix'', trim (getString config (branchType @ js ''.tagPrefix'') [])]
          else [])"
    define messagePart where
      "messagePart =
         (case branchName of
            Some bn \<Rightarrow>
              (if getBoolean config (js ''promptForTagMessage'') False \<and> bn \<noteq> [] then
                 (case showInputBox (js ''Release '' @ bn) of
                    Some tagMessage \<Rightarrow>
                      (if tagMessage \<noteq> [] \<and> trim tagMessage \<noteq> [] then
                         [js ''--message'', trim tagMessage]
                       else [])
                  | None \<Rightarrow> [])
               else [])
          | None \<Rightarrow> [])"
    define signPart where
      "signPart =
         (if getBoolean config (js ''signTags'') False then
            [js ''--sign'']
            @ (if getString config (js ''gpgSigningKey'') [] \<noteq> []
                  \<and> trim (getString config (js ''gpgSigningKey'') []) \<noteq> []
               then [js ''--signingkey'', trim (getString config (js ''gpgSigningKey'') [])]
               else [])
          else [])"
    have opts: "getTagOptions config showInputBox branchType branchName
                = js ''--tag'' # prefixPart @ messagePart @ signPart"
      using True
      by (simp add: getTagOptions_def Let_def prefixPart_def messagePart_def signPart_def)
    have p: "prefixPart = [] \<or> (\<exists>v. prefixPart = [js ''--tagprefix'', v])"
      by (simp add: prefixPart_def)
    have m: "messagePart = [] \<or> (\<exists>v. messagePart = [js ''--message'', v])"
      by (auto simp: messagePart_def split: option.splits)
    have s: "signPart = [] \<or> signPart = [js ''--sign'']
             \<or> (\<exists>v. signPart = [js ''--sign'', js ''--signingkey'', v])"
      by (simp add: signPart_def)
    have fs: "filter (\<lambda>opt. opt \<in> set tagFlags) (flagsOf signPart) = []"
      using s tag_literals(3,4) option_literals(3,6)
      by (auto simp: flagsOf_flag)
    have fm: "filter (\<lambda>opt. opt \<in> set tagFlags) (flagsOf (messagePart @ signPart)) = []"
      using m fs tag_literals(2) option_literals(2) by auto
    have fp: "filter (\<lambda>opt. opt \<in> set tagFlags) (flagsOf (prefixPart @ messagePart @ signPart))
              = []"
      using p fm tag_literals(1) option_literals(1) by auto
    have "flagsOf (js ''--tag'' # prefixPart @ messagePart @ signPart)
          = js ''--tag'' # flagsOf (prefixPart @ messagePart @ signPart)"
      using option_literals(4) by (rule flagsOf_flag)
    then show ?thesis
      using True fp tag_literals(5) by (simp add: opts)
  qed
  then show ?thesis
    by simp
qed

text \<open>
  The statement at the empty configuration, at a configuration that tags releases with
  prefix \<open>v\<close> and signs the tags, and at one whose tag prefix is the text \<open>--notag\<close>,
  which is passed as the value of \<open>--tagprefix\<close> and is no flag.
\<close>

theorem getTagOptions_one_flag_witness:
  "getTagOptions emptyConfiguration dismissPrompt (js ''release'') None = [js ''--notag'']
   \<and> filter (\<lambda>opt. opt \<in> set tagFlags)
        (flagsOf (getTagOptions emptyConfiguration dismissPrompt (js ''release'') None))
       = [js ''--notag'']
   \<and> getTagOptions signedReleaseTags dismissPrompt (js ''release'') None
       = [js ''--tag'', js ''--tagprefix'', js ''v'', js ''--sign'']
   \<and> filter (\<lambda>opt. opt \<in> set tagFlags)
        (flagsOf (getTagOptions signedReleaseTags dismissPrompt (js ''release'') None))
       = [js ''--tag'']
   \<and> getTagOptions tagPrefixNotag dismissPrompt (js ''release'') None
       = [js ''--tag'', js ''--tagprefix'', js ''--notag'']
   \<and> filter (\<lambda>opt. opt \<in> set tagFlags)
        (flagsOf (getTagOptions tagPrefixNotag dismissPrompt (js ''release'') None))
       = [js ''--tag'']"
proof -
  have 1: "\<not> getBoolean emptyConfiguration (js ''release'' @ js ''.createTag'') False"
    by (simp add: getBoolean_def emptyConfiguration_def)
  have 2: "getBoolean signedReleaseTags (js ''release'' @ js ''.createTag'') False"
    "getBoolean tagPrefixNotag (js ''release'' @ js ''.createTag'') False"
    by (simp_all add: getBoolean_def signedReleaseTags_def tagPrefixNotag_def js_def)
  have 3: "getTagOptions emptyConfiguration dismissPrompt (js ''release'') None = [js ''--notag'']"
    "getTagOptions signedReleaseTags dismissPrompt (js ''release'') None
       = [js ''--tag'', js ''--tagprefix'', js ''v'', js ''--sign'']"
    "getTagOptions tagPrefixNotag dismissPrompt (js ''release'') None
       = [js ''--tag'', js ''--tagprefix'', js ''--notag'']"
    by (simp_all add: getTagOptions_def getBoolean_def getString_def emptyConfiguration_def
        signedReleaseTags_def tagPrefixNotag_def js_def trim_def isWhiteSpace_def
        isLineTerminator_def)
  show ?thesis
    using getTagOptions_one_flag [of emptyConfiguration dismissPrompt "js ''release''" None]
      getTagOptions_one_flag [of signedReleaseTags dismissPrompt "js ''release''" None]
      getTagOptions_one_flag [of tagPrefixNotag dismissPrompt "js ''release''" None]
      1 2 3
    by simp
qed




section \<open>Properties of the save handler\<close>

text \<open>
  No timer is ever cleared: every save that passes the handler's test sets a timer, and
  every timer starts a refresh when it is due.
\<close>

lemma elapse_count:
  "length (refreshes (elapse d l)) + length (timers (elapse d l))
   = length (refreshes l) + length (timers l)"
proof -
  have "length (filter (\<lambda>t. t \<le> now l + d) (timers l))
        + length (filter (\<lambda>t. now l + d < t) (timers l)) = length (timers l)"
    using sum_length_filter_compl [of "\<lambda>t. t \<le> now l + d" "timers l"]
    by (simp add: not_le)
  then show ?thesis
    by (simp add: elapse_def)
qed

lemma run_count:
  "length (refreshes (run evs l)) + length (timers (run evs l))
   = length (refreshes l) + length (timers l) + length (filter isGitSave evs)"
proof (induction evs l rule: run.induct)
  case (1 l)
  then show ?case by simp
next
  case (2 fileName evs l)
  then show ?case
    by (simp add: onDidSaveTextDocument_def isGitSave_def)
next
  case (3 d evs l)
  then show ?case
    using elapse_count [of d l] by (simp add: isGitSave_def)
qed

text \<open>
  Claim C5 says that saves under the metadata directory within the quiet window are
  coalesced into one refresh. Two such saves 100 ms apart start two refreshes, one
  second after each save: the handler sets a timer per save and clears none.
\<close>

theorem save_handler_refreshes_twice:
  "refreshes (run twoSaves idle) = [1000, 1100]"
  by (simp add: twoSaves_def idle_def onDidSaveTextDocument_def elapse_def startsWith_def js_def)


section \<open>Properties of the error extraction\<close>

lemma startsWith_Cons:
  "startsWith s (c # p) = (case s of [] \<Rightarrow> False | x # xs \<Rightarrow> x = c \<and> startsWith xs p)"
  by (cases s) (auto simp: startsWith_def)

lemma rmatch_chars:
  "rmatch (chars p) k s g = (if startsWith s p then k (drop (length p) s) g else None)"
proof (induction p arbitrary: s)
  case Nil
  then show ?case by (simp add: startsWith_def)
next
  case (Cons c p)
  show ?case
    by (cases s) (simp_all add: startsWith_Cons Cons.IH)
qed

lemma lazyPlus_line:
  assumes k: "\<And>s'. k s' = (if s' = [] \<or> hd s' = 10 then Some (f s') else None)"
  shows "lazyPlus AnyChar k s =
     (let msg = takeWhile (\<lambda>c. \<not> isLineTerminator c) s;
          after = dropWhile (\<lambda>c. \<not> isLineTerminator c) s
      in if msg \<noteq> [] \<and> (after = [] \<or> hd after = 10) then Some (f after) else None)"
proof (induction s)
  case Nil
  then show ?case by simp
next
  case (Cons x xs)
  show ?case
  proof (cases "isLineTerminator x")
    case True
    then show ?thesis by simp
  next
    case nl: False
    show ?thesis
    proof (cases "xs = [] \<or> hd xs = 10")
      case True
      then have "takeWhile (\<lambda>c. \<not> isLineTerminator c) xs = []"
        "dropWhile (\<lambda>c. \<not> isLineTerminator c) xs = xs"
        by (cases xs; auto simp: isLineTerminator_def)+
      then show ?thesis
        using nl True by (simp add: k [of xs] Let_def)
    next
      case False
      then obtain y ys where xs: "xs = y # ys" and y: "y \<noteq> 10"
        by (cases xs) auto
      have e: "takeWhile (\<lambda>c. \<not> isLineTerminator c) xs = [] \<Longrightarrow>
               \<not> (dropWhile (\<lambda>c. \<not> isLineTerminator c) xs = []
                  \<or> hd (dropWhile (\<lambda>c. \<not> isLineTerminator c) xs) = 10)"
        using y by (auto simp: xs split: if_splits)
      have "lazyPlus AnyChar k (x # xs) = lazyPlus AnyChar k xs"
        using nl False by (simp add: k [of xs])
      then show ?thesis
        using nl e by (auto simp: Let_def Cons.IH)
    qed
  qed
qed

lemma matchAt_errorRe:
  "matchAt errorRe s =
     (case markerAt s of
        Some msg \<Rightarrow>
          Some (drop 1 (dropWhile (\<lambda>c. \<not> isLineTerminator c) (drop (length (js ''Error: '')) s)),
                Some msg)
      | None \<Rightarrow> None)"
proof -
  define r where "r = drop (length (js ''Error: '')) s"
  define k where
    "k = (\<lambda>s'. rmatch (Alt (One (Lit 10)) EndOfInput) (\<lambda>s'' g. Some (s'', g)) s'
                 (Some (take (length r - length s') r)))"
  have k: "k s' = (if s' = [] \<or> hd s' = 10
                   then Some (drop 1 s', Some (take (length r - length s') r)) else None)" for s'
    by (cases s') (simp_all add: k_def)
  have t: "take (length r - length (dropWhile (\<lambda>c. \<not> isLineTerminator c) r)) r
           = takeWhile (\<lambda>c. \<not> isLineTerminator c) r"
    by (metis append_eq_conv_conj diff_add_inverse2 length_append takeWhile_dropWhile_id)
  have "matchAt errorRe s
        = (if startsWith s (js ''Error: '') then lazyPlus AnyChar k r else None)"
    by (simp only: matchAt_def errorRe_def rmatch.simps(2,4,8) rmatch_chars k_def r_def)
  then show ?thesis
    by (simp add: lazyPlus_line [of k, OF k] markerAt_def Let_def t r_def [symmetric])
qed

lemma search_errorRe:
  "search errorRe s = (case firstMarker s of Some msg \<Rightarrow> search errorRe s | None \<Rightarrow> None)
   \<and> (\<forall>msg. firstMarker s = Some msg \<longrightarrow> (\<exists>rest. search errorRe s = Some (rest, Some msg)))"
proof (induction s)
  case Nil
  have "markerAt [] = None"
    by (simp add: markerAt_def startsWith_def js_def)
  then show ?case
    by (simp add: matchAt_errorRe)
next
  case (Cons c cs)
  show ?case
  proof (cases "markerAt (c # cs)")
    case None
    then show ?thesis
      using Cons.IH by (simp add: matchAt_errorRe split: option.splits)
  next
    case (Some msg)
    then show ?thesis
      by (simp add: matchAt_errorRe)
  qed
qed


lemma greedyPlus_line:
  assumes k: "\<And>s'. k s' = Some (f s')"
  shows "greedyPlus (NotLit 10) k s =
     (if s = [] \<or> hd s = 10 then None else Some (f (dropWhile (\<lambda>c. c \<noteq> 10) s)))"
proof (induction s)
  case Nil
  then show ?case by simp
next
  case (Cons x xs)
  show ?case
  proof (cases "xs = [] \<or> hd xs = 10")
    case True
    then have "dropWhile (\<lambda>c. c \<noteq> 10) xs = xs"
      by (cases xs) auto
    moreover have "greedyPlus (NotLit 10) k xs = None"
      using True by (simp add: Cons.IH)
    ultimately show ?thesis
      by (simp add: k [of xs])
  next
    case False
    then show ?thesis
      by (simp add: Cons.IH)
  qed
qed

lemma matchAt_commandFailedRe:
  "(case matchAt commandFailedRe s of Some (rest, g) \<Rightarrow> rest | None \<Rightarrow> s)
   = stripCommandFailed s"
proof -
  define r where "r = drop (length (js ''Command failed: '')) s"
  define k where
    "k = (\<lambda>s'. rmatch (Alt (One (Lit 10)) Empty)
                 (\<lambda>s'' g. Some (s'', g :: jsstring option)) s' None)"
  have d: "drop 1 (dropWhile (\<lambda>c. c \<noteq> 10) xs) = xs'"
    if "dropWhile (\<lambda>c. c \<noteq> (10::nat)) xs = 10 # xs'" for xs xs'
    using that by simp
  have k: "k s' = Some (if s' \<noteq> [] \<and> hd s' = 10 then drop 1 s' else s', None)" for s'
    by (cases s') (simp_all add: k_def)
  have h: "dropWhile (\<lambda>c. c \<noteq> (10::nat)) xs \<noteq> [] \<Longrightarrow> hd (dropWhile (\<lambda>c. c \<noteq> 10) xs) = 10"
    for xs
    using hd_dropWhile [of "\<lambda>c. c \<noteq> (10::nat)" xs] by simp
  have "matchAt commandFailedRe s
        = (if startsWith s (js ''Command failed: '') then greedyPlus (NotLit 10) k r else None)"
    by (simp only: matchAt_def commandFailedRe_def rmatch.simps(3,4) rmatch_chars k_def r_def)
  moreover have "(if d \<noteq> [] \<and> hd d = 10 then drop 1 d else d) = drop 1 d"
    if "d \<noteq> [] \<Longrightarrow> hd d = 10" for d :: jsstring
    using that by (cases d) auto
  note this [OF h [of r]]
  ultimately show ?thesis
    by (simp add: greedyPlus_line [of k, OF k] stripCommandFailed_def Let_def
        r_def [symmetric])
qed

text \<open>
  What the two regular expressions compute, in words: the message of the leftmost error
  marker if there is one, and otherwise the text without its \<open>Command failed\<close> line,
  trimmed.
\<close>

lemma extractErrorMessage_marker:
  "extractErrorMessage raw =
     (case firstMarker raw of
        Some msg \<Rightarrow> msg
      | None \<Rightarrow> trim (stripCommandFailed raw))"
proof (cases "firstMarker raw")
  case None
  then have "search errorRe raw = None"
    using search_errorRe [of raw] by simp
  then show ?thesis
    using None by (simp add: extractErrorMessage_def matchAt_commandFailedRe)
next
  case (Some msg)
  then obtain rest where "search errorRe raw = Some (rest, Some msg)"
    using search_errorRe [of raw] by blast
  then show ?thesis
    using Some by (simp add: extractErrorMessage_def)
qed

lemma lfFailure_marker: "firstMarker lfFailure = Some (js ''boom'')"
  by (simp add: lfFailure_def markerAt_def startsWith_def js_def isLineTerminator_def)

lemma crlfFailure_marker: "firstMarker crlfFailure = None"
  by (simp add: crlfFailure_def markerAt_def startsWith_def js_def isLineTerminator_def)

lemma crlfFailure_strip: "trim (stripCommandFailed crlfFailure) = js ''Error: boom''"
  by (simp add: crlfFailure_def stripCommandFailed_def startsWith_def js_def trim_def
      isWhiteSpace_def isLineTerminator_def)

lemma lfFailure_message: "extractErrorMessage lfFailure = js ''boom''"
  by (simp add: extractErrorMessage_marker lfFailure_marker)

text \<open>
  Claim C9 says that when the failure text contains a marker \<open>Error: <message>\<close>, the
  surfaced message is the text that follows the first marker, up to the end of its
  line, and that the \<open>Command failed\<close> prefix is stripped otherwise. The comments of the
  source say the same: only the actual error is to be shown, and the second branch is
  for a text with no \<open>Error:\<close> prefix. When the line of the marker ends with CR LF, the
  code does not find the marker: its regular expression lets the message end only
  before a line feed or at the end of the text, and \<open>.\<close> does not match the carriage
  return. The text contains \<open>Error: boom\<close>, and the surfaced message is \<open>Error: boom\<close>
  instead of \<open>boom\<close>, which the same text with LF line ends gives.
\<close>

theorem extractErrorMessage_keeps_marker:
  "includesStr crlfFailure (js ''Error: boom'')
   \<and> extractErrorMessage crlfFailure = js ''Error: boom''
   \<and> extractErrorMessage crlfFailure \<noteq> js ''boom''"
  by (simp add: extractErrorMessage_def crlfFailure_def errorRe_def commandFailedRe_def matchAt_def
      js_def isLineTerminator_def trim_def isWhiteSpace_def startsWith_def)

end
